theory Spec2Isabelle
  imports Main
begin

section \<open>The banking object model of the two desafio_v1.py modules\<close>

text \<open>
  The repository holds two versions of one module: the object-oriented exercise
  (02 - Programacao Orientada a Objetos/10 - desafio/desafio_v1.py, prefix \<open>poo_\<close> below) and
  the date-and-time exercise (04 - Data e hora/desafio/desafio_v1.py, prefix \<open>dh_\<close>).
  Methods whose bodies are the same in both files are embedded once, without a prefix.

  Amounts and balances are embedded as Python's unbounded integers, which the script at
  the end of the first module passes (1000, 200, 900). The menu of the second module
  parses an amount with \<open>float(input())\<close>; the rounding of binary floating point is not
  part of the embedding, so a statement that depends on exact arithmetic is a statement
  about integer amounts. Every method prints exactly
  one line on the console before it returns: the printed line is part of the value the
  embedded method returns.
\<close>

subsection \<open>Console lines\<close>

datatype mensagem =
    ValorInvalido       \<comment> \<open>"Operacao falhou! O valor informado e invalido."\<close>
  | SaldoInsuficiente   \<comment> \<open>"Operacao falhou! Voce nao tem saldo suficiente."\<close>
  | LimiteExcedido      \<comment> \<open>"Operacao falhou! O valor do saque excede o limite."\<close>
  | SaquesExcedidos     \<comment> \<open>"Operacao falhou! Numero maximo de saques excedido."\<close>
  | SaqueRealizado      \<comment> \<open>"Saque realizado com sucesso!"\<close>
  | DepositoRealizado   \<comment> \<open>"Deposito realizado com sucesso!"\<close>

subsection \<open>Transacao, Saque, Deposito\<close>

datatype transacao = Saque int | Deposito int

text \<open>
  \<open>Saque.__init__\<close> and \<open>Deposito.__init__\<close> store their argument in \<open>_valor\<close> and do
  nothing else. The result is an option so that a rejected construction would be
  \<open>None\<close>; the source has no \<open>raise\<close>, so no equation yields it.
\<close>

definition Saque_init :: "int \<Rightarrow> transacao option" where
  "Saque_init valor = Some (Saque valor)"

definition Deposito_init :: "int \<Rightarrow> transacao option" where
  "Deposito_init valor = Some (Deposito valor)"

text \<open>The property \<open>valor\<close> of both subclasses returns \<open>self._valor\<close>.\<close>

fun Transacao_valor :: "transacao \<Rightarrow> int" where
  "Transacao_valor (Saque v) = v"
| "Transacao_valor (Deposito v) = v"

text \<open>\<open>transacao.__class__.__name__\<close>\<close>

fun nome_classe :: "transacao \<Rightarrow> string" where
  "nome_classe (Saque v) = ''Saque''"
| "nome_classe (Deposito v) = ''Deposito''"

subsection \<open>Historico\<close>

text \<open>
  One entry of \<open>Historico._transacoes\<close> is a dictionary with the three keys
  "tipo", "valor" and "data"; the list keeps insertion order.
\<close>

record registro =
  tipo :: string
  valor :: int
  data :: string

type_synonym historico_t = "registro list"

definition Historico_init :: historico_t where
  "Historico_init = []"

text \<open>
  \<open>Historico.adicionar_transacao\<close>. The entry's "data" is the formatted
  \<open>datetime.now()\<close>; the clock is an input of the model (\<open>agora\<close>).
\<close>

definition adicionar_transacao :: "transacao \<Rightarrow> string \<Rightarrow> historico_t \<Rightarrow> historico_t" where
  "adicionar_transacao transacao agora transacoes =
     transacoes @ [\<lparr>tipo = nome_classe transacao, valor = Transacao_valor transacao, data = agora\<rparr>]"

subsection \<open>Conta and ContaCorrente\<close>

text \<open>
  \<open>ContaCorrente\<close> inherits from \<open>Conta\<close>: it is the record extension, and a method of
  \<open>Conta\<close> is a function on every extension of the record (\<open>conta_scheme\<close>), so the
  subclass inherits it. The owning customer is a reference held by the account; its type
  is the parameter \<open>'c\<close>.
\<close>

record 'c conta =
  saldo :: int
  numero :: int
  agencia :: string
  cliente :: 'c
  historico :: historico_t

record 'c conta_corrente = "'c conta" +
  limite :: int
  limite_saques :: int

text \<open>What a call leaves behind: the line printed, the account after the call, and for
  \<open>sacar\<close> and \<open>depositar\<close> the boolean returned.\<close>

record 'a efeito =
  impresso :: mensagem
  estado :: 'a

record 'a retorno = "'a efeito" +
  retornado :: bool

definition AGENCIA_PADRAO :: string where
  "AGENCIA_PADRAO = ''0001''"

definition Conta_init :: "int \<Rightarrow> 'c \<Rightarrow> 'c conta" where
  "Conta_init numero_arg cliente_arg =
     \<lparr>saldo = 0, numero = numero_arg, agencia = AGENCIA_PADRAO, cliente = cliente_arg,
      historico = Historico_init\<rparr>"

text \<open>\<open>Conta.nova_conta(cls, cliente, numero)\<close> with \<open>cls = Conta\<close>.\<close>

definition Conta_nova_conta :: "'c \<Rightarrow> int \<Rightarrow> 'c conta" where
  "Conta_nova_conta cliente_arg numero_arg = Conta_init numero_arg cliente_arg"

text \<open>\<open>ContaCorrente.__init__\<close>: \<open>super().__init__\<close>, then the two fields of the subclass.\<close>

definition ContaCorrente_init :: "int \<Rightarrow> 'c \<Rightarrow> int \<Rightarrow> int \<Rightarrow> 'c conta_corrente" where
  "ContaCorrente_init numero_arg cliente_arg limite_arg limite_saques_arg =
     conta.extend (Conta_init numero_arg cliente_arg)
       (conta_corrente.fields limite_arg limite_saques_arg)"

text \<open>The defaults of the keyword arguments \<open>limite=500, limite_saques=3\<close>.\<close>

definition limite_padrao :: int where
  "limite_padrao = 500"

definition limite_saques_padrao :: int where
  "limite_saques_padrao = 3"

text \<open>
  In the first module \<open>ContaCorrente\<close> inherits \<open>nova_conta\<close>: \<open>cls(numero, cliente)\<close>
  with \<open>cls = ContaCorrente\<close>, so both keyword arguments take their defaults. The second
  module overrides it and passes \<open>limite\<close> and \<open>limite_saques\<close> on.
\<close>

definition poo_ContaCorrente_nova_conta :: "'c \<Rightarrow> int \<Rightarrow> 'c conta_corrente" where
  "poo_ContaCorrente_nova_conta cliente_arg numero_arg =
     ContaCorrente_init numero_arg cliente_arg limite_padrao limite_saques_padrao"

definition dh_ContaCorrente_nova_conta :: "'c \<Rightarrow> int \<Rightarrow> int \<Rightarrow> int \<Rightarrow> 'c conta_corrente" where
  "dh_ContaCorrente_nova_conta cliente_arg numero_arg limite_arg limite_saques_arg =
     ContaCorrente_init numero_arg cliente_arg limite_arg limite_saques_arg"

text \<open>\<open>Conta.sacar\<close> of the first module: the amount is checked, then the balance.\<close>

definition poo_Conta_sacar :: "int \<Rightarrow> ('c, 'z) conta_scheme \<Rightarrow> ('c, 'z) conta_scheme retorno" where
  "poo_Conta_sacar v c =
     (if v \<le> 0 then \<lparr>impresso = ValorInvalido, estado = c, retornado = False\<rparr>
      else if v > saldo c then \<lparr>impresso = SaldoInsuficiente, estado = c, retornado = False\<rparr>
      else \<lparr>impresso = SaqueRealizado, estado = c\<lparr>saldo := saldo c - v\<rparr>, retornado = True\<rparr>)"

text \<open>\<open>Conta.sacar\<close> of the second module: the balance is checked, then the amount.\<close>

definition dh_Conta_sacar :: "int \<Rightarrow> ('c, 'z) conta_scheme \<Rightarrow> ('c, 'z) conta_scheme retorno" where
  "dh_Conta_sacar v c =
     (if v > saldo c then \<lparr>impresso = SaldoInsuficiente, estado = c, retornado = False\<rparr>
      else if v \<le> 0 then \<lparr>impresso = ValorInvalido, estado = c, retornado = False\<rparr>
      else \<lparr>impresso = SaqueRealizado, estado = c\<lparr>saldo := saldo c - v\<rparr>, retornado = True\<rparr>)"

text \<open>\<open>Conta.depositar\<close>, the same in both modules and not overridden.\<close>

definition Conta_depositar :: "int \<Rightarrow> ('c, 'z) conta_scheme \<Rightarrow> ('c, 'z) conta_scheme retorno" where
  "Conta_depositar v c =
     (if v \<le> 0 then \<lparr>impresso = ValorInvalido, estado = c, retornado = False\<rparr>
      else \<lparr>impresso = DepositoRealizado, estado = c\<lparr>saldo := saldo c + v\<rparr>, retornado = True\<rparr>)"

text \<open>
  The local \<open>numero_saques\<close> of \<open>ContaCorrente.sacar\<close>. First module:
  \<open>sum(1 for transacao in transacoes if transacao["tipo"] == Saque.__name__)\<close>; second module:
  \<open>len([transacao for transacao in transacoes if transacao["tipo"] == "Saque"])\<close>.
\<close>

definition poo_numero_saques :: "historico_t \<Rightarrow> int" where
  "poo_numero_saques transacoes =
     sum_list (map (\<lambda>transacao. 1) (filter (\<lambda>transacao. tipo transacao = ''Saque'') transacoes))"

definition dh_numero_saques :: "historico_t \<Rightarrow> int" where
  "dh_numero_saques transacoes =
     int (length (filter (\<lambda>transacao. tipo transacao = ''Saque'') transacoes))"

text \<open>
  \<open>ContaCorrente.sacar\<close>: the per-withdrawal limit, then the number of withdrawals in the
  history, then \<open>super().sacar(valor)\<close>.
\<close>

definition poo_ContaCorrente_sacar ::
  "int \<Rightarrow> ('c, 'z) conta_corrente_scheme \<Rightarrow> ('c, 'z) conta_corrente_scheme retorno" where
  "poo_ContaCorrente_sacar v c =
     (let numero_saques = poo_numero_saques (historico c) in
      if v > limite c then \<lparr>impresso = LimiteExcedido, estado = c, retornado = False\<rparr>
      else if numero_saques \<ge> limite_saques c
        then \<lparr>impresso = SaquesExcedidos, estado = c, retornado = False\<rparr>
      else poo_Conta_sacar v c)"

definition dh_ContaCorrente_sacar ::
  "int \<Rightarrow> ('c, 'z) conta_corrente_scheme \<Rightarrow> ('c, 'z) conta_corrente_scheme retorno" where
  "dh_ContaCorrente_sacar v c =
     (let numero_saques = dh_numero_saques (historico c) in
      if v > limite c then \<lparr>impresso = LimiteExcedido, estado = c, retornado = False\<rparr>
      else if numero_saques \<ge> limite_saques c
        then \<lparr>impresso = SaquesExcedidos, estado = c, retornado = False\<rparr>
      else dh_Conta_sacar v c)"

subsection \<open>registrar and realizar_transacao\<close>

text \<open>
  \<open>Saque.registrar(conta)\<close> calls \<open>conta.sacar(self.valor)\<close>, which Python resolves by
  the class of \<open>conta\<close>: the resolved method is the argument \<open>sacar_m\<close>. On \<open>True\<close> it calls
  \<open>conta.historico.adicionar_transacao(self)\<close>. The method returns nothing.
\<close>

definition Saque_registrar ::
  "(int \<Rightarrow> ('c, 'z) conta_scheme \<Rightarrow> ('c, 'z) conta_scheme retorno) \<Rightarrow> int \<Rightarrow> string \<Rightarrow>
   ('c, 'z) conta_scheme \<Rightarrow> ('c, 'z) conta_scheme efeito" where
  "Saque_registrar sacar_m v agora c =
     (let r = sacar_m v c in
      if retornado r
      then \<lparr>impresso = impresso r,
            estado = (estado r)\<lparr>historico := adicionar_transacao (Saque v) agora (historico (estado r))\<rparr>\<rparr>
      else \<lparr>impresso = impresso r, estado = estado r\<rparr>)"

text \<open>\<open>Deposito.registrar(conta)\<close>; \<open>depositar\<close> has one implementation.\<close>

definition Deposito_registrar ::
  "int \<Rightarrow> string \<Rightarrow> ('c, 'z) conta_scheme \<Rightarrow> ('c, 'z) conta_scheme efeito" where
  "Deposito_registrar v agora c =
     (let r = Conta_depositar v c in
      if retornado r
      then \<lparr>impresso = impresso r,
            estado = (estado r)\<lparr>historico := adicionar_transacao (Deposito v) agora (historico (estado r))\<rparr>\<rparr>
      else \<lparr>impresso = impresso r, estado = estado r\<rparr>)"

text \<open>
  \<open>Cliente.realizar_transacao(conta, transacao)\<close> is \<open>transacao.registrar(conta)\<close>, resolved
  by the class of the transaction; the customer object is not read.
\<close>

fun realizar_transacao ::
  "(int \<Rightarrow> ('c, 'z) conta_scheme \<Rightarrow> ('c, 'z) conta_scheme retorno) \<Rightarrow> transacao \<Rightarrow> string \<Rightarrow>
   ('c, 'z) conta_scheme \<Rightarrow> ('c, 'z) conta_scheme efeito" where
  "realizar_transacao sacar_m (Saque v) agora c = Saque_registrar sacar_m v agora c"
| "realizar_transacao sacar_m (Deposito v) agora c = Deposito_registrar v agora c"

subsection \<open>Sequences of calls\<close>

text \<open>
  One call on an account: \<open>conta.depositar(v)\<close>, \<open>conta.sacar(v)\<close>, or
  \<open>cliente.realizar_transacao(conta, transacao)\<close> at clock reading \<open>agora\<close>. A client of
  the classes (the script at the end of the first module, the menu loop of the second)
  performs such calls one after the other on the same object.
\<close>

datatype chamada = Depositar int | Sacar int | Realizar transacao string

fun chamar ::
  "(int \<Rightarrow> ('c, 'z) conta_scheme \<Rightarrow> ('c, 'z) conta_scheme retorno) \<Rightarrow> chamada \<Rightarrow>
   ('c, 'z) conta_scheme \<Rightarrow> ('c, 'z) conta_scheme" where
  "chamar sacar_m (Depositar v) c = estado (Conta_depositar v c)"
| "chamar sacar_m (Sacar v) c = estado (sacar_m v c)"
| "chamar sacar_m (Realizar t agora) c = estado (realizar_transacao sacar_m t agora c)"

fun executar ::
  "(int \<Rightarrow> ('c, 'z) conta_scheme \<Rightarrow> ('c, 'z) conta_scheme retorno) \<Rightarrow> chamada list \<Rightarrow>
   ('c, 'z) conta_scheme \<Rightarrow> ('c, 'z) conta_scheme" where
  "executar sacar_m [] c = c"
| "executar sacar_m (x # xs) c = executar sacar_m xs (chamar sacar_m x c)"

text \<open>
  A checking account with the default limits after one registered deposit of 1000 and
  three registered withdrawals of 100, run through the second module's methods.
\<close>

definition conta_tres_saques :: "string conta_corrente" where
  "conta_tres_saques = executar dh_ContaCorrente_sacar
     [Realizar (Deposito 1000) ''t0'', Realizar (Saque 100) ''t1'',
      Realizar (Saque 100) ''t2'', Realizar (Saque 100) ''t3'']
     (ContaCorrente_init 1 ''ana'' 500 3)"

text \<open>
  The calls of the script under \<open>if __name__ == "__main__"\<close> of the first module, on
  \<open>ContaCorrente(numero=1001, cliente=cliente)\<close>. Its comments expect the last call to
  fail on the number of withdrawals.
\<close>

definition poo_script :: "chamada list" where
  "poo_script = [Depositar 1000, Sacar 200, Sacar 900, Sacar 200, Sacar 200, Sacar 200, Sacar 200]"

section \<open>Properties\<close>

lemma numero_saques_eq: "poo_numero_saques h = dh_numero_saques h"
  unfolding poo_numero_saques_def dh_numero_saques_def
  by (induction h) simp_all

lemmas sacar_defs =
  poo_Conta_sacar_def dh_Conta_sacar_def poo_ContaCorrente_sacar_def dh_ContaCorrente_sacar_def

lemmas avaliar = Saque_registrar_def Deposito_registrar_def Conta_depositar_def sacar_defs
  dh_numero_saques_def poo_numero_saques_def adicionar_transacao_def Let_def
  ContaCorrente_init_def Conta_init_def Historico_init_def AGENCIA_PADRAO_def
  conta.defs conta_corrente.defs

lemma conta_tres_saques_eq:
  "conta_tres_saques =
     \<lparr>saldo = 700, numero = 1, agencia = ''0001'', cliente = ''ana'',
      historico =
        [\<lparr>tipo = ''Deposito'', valor = 1000, data = ''t0''\<rparr>,
         \<lparr>tipo = ''Saque'', valor = 100, data = ''t1''\<rparr>,
         \<lparr>tipo = ''Saque'', valor = 100, data = ''t2''\<rparr>,
         \<lparr>tipo = ''Saque'', valor = 100, data = ''t3''\<rparr>],
      limite = 500, limite_saques = 3\<rparr>"
  unfolding conta_tres_saques_def by (simp add: avaliar)

lemma conta_tres_saques_campos:
  "saldo conta_tres_saques = 700" "limite conta_tres_saques = 500"
  "limite_saques conta_tres_saques = 3" "dh_numero_saques (historico conta_tres_saques) = 3"
  by (simp_all add: conta_tres_saques_eq dh_numero_saques_def)

lemma conta_nova_campos:
  "saldo (Conta_init n cl) = 0"
  "saldo (ContaCorrente_init n cl l ls) = 0"
  "limite (ContaCorrente_init n cl l ls) = l"
  "limite_saques (ContaCorrente_init n cl l ls) = ls"
  "dh_numero_saques (historico (ContaCorrente_init n cl l ls)) = 0"
  by (simp_all add: Conta_init_def ContaCorrente_init_def Historico_init_def dh_numero_saques_def
      conta.defs conta_corrente.defs)

text \<open>
  The script of the first module calls \<open>conta.sacar\<close> directly, so nothing is written to
  the history and the count stays 0. Its call of 900 at balance 800, which the script
  comments as a withdrawal above the balance, prints the limit line; all four calls of
  200 that follow succeed, the last one too.
\<close>

lemma poo_script_saque_900:
  "saldo (executar poo_ContaCorrente_sacar (take 2 poo_script)
            (ContaCorrente_init 1001 ''Luca Castro'' 500 3)) = 800
   \<and> impresso (poo_ContaCorrente_sacar 900
        (executar poo_ContaCorrente_sacar (take 2 poo_script)
            (ContaCorrente_init 1001 ''Luca Castro'' 500 3))) = LimiteExcedido"
  unfolding poo_script_def by (simp add: avaliar)

lemma poo_script_final:
  "saldo (executar poo_ContaCorrente_sacar poo_script
            (ContaCorrente_init 1001 ''Luca Castro'' 500 3)) = 0"
  unfolding poo_script_def by (simp add: avaliar)

text \<open>
  C2. \<open>depositar\<close> with an amount \<open>a \<le> 0\<close> returns False and leaves the account as it was;
  with \<open>a > 0\<close> it returns True and the balance grows by exactly \<open>a\<close>; in both cases the
  history of the account is the one before the call.
\<close>

theorem depositar_spec:
  "(a \<le> 0 \<longrightarrow> retornado (Conta_depositar a c) = False \<and> estado (Conta_depositar a c) = c)
   \<and> (a > 0 \<longrightarrow> retornado (Conta_depositar a c) = True
                \<and> saldo (estado (Conta_depositar a c)) = saldo c + a)
   \<and> historico (estado (Conta_depositar a c)) = historico c"
  by (simp add: Conta_depositar_def)

theorem depositar_spec_witness:
  "retornado (Conta_depositar (-5) (Conta_init 1 ''ana'')) = False
   \<and> estado (Conta_depositar (-5) (Conta_init 1 ''ana'')) = Conta_init 1 ''ana''
   \<and> retornado (Conta_depositar 1000 (ContaCorrente_init 1 ''ana'' 500 3)) = True
   \<and> saldo (estado (Conta_depositar 1000 (ContaCorrente_init 1 ''ana'' 500 3))) = 1000"
  using depositar_spec [of "-5" "Conta_init 1 ''ana''"]
        depositar_spec [of 1000 "ContaCorrente_init 1 ''ana'' 500 3"]
  by (simp add: ContaCorrente_init_def Conta_init_def conta.defs conta_corrente.defs)

text \<open>
  C10. An account made by the constructor or by \<open>nova_conta\<close>, of either class and in
  either module, has balance 0, an empty history and branch code "0001", whatever the
  customer and the account number.
\<close>

theorem nova_conta_inicial:
  "saldo (Conta_init n cl) = 0 \<and> historico (Conta_init n cl) = [] \<and> agencia (Conta_init n cl) = ''0001''
   \<and> saldo (Conta_nova_conta cl n) = 0 \<and> historico (Conta_nova_conta cl n) = []
   \<and> agencia (Conta_nova_conta cl n) = ''0001''
   \<and> saldo (ContaCorrente_init n cl l ls) = 0 \<and> historico (ContaCorrente_init n cl l ls) = []
   \<and> agencia (ContaCorrente_init n cl l ls) = ''0001''
   \<and> saldo (poo_ContaCorrente_nova_conta cl n) = 0 \<and> historico (poo_ContaCorrente_nova_conta cl n) = []
   \<and> agencia (poo_ContaCorrente_nova_conta cl n) = ''0001''
   \<and> saldo (dh_ContaCorrente_nova_conta cl n l ls) = 0
   \<and> historico (dh_ContaCorrente_nova_conta cl n l ls) = []
   \<and> agencia (dh_ContaCorrente_nova_conta cl n l ls) = ''0001''"
  by (simp add: Conta_init_def Conta_nova_conta_def ContaCorrente_init_def
      poo_ContaCorrente_nova_conta_def dh_ContaCorrente_nova_conta_def
      Historico_init_def AGENCIA_PADRAO_def conta.defs conta_corrente.defs)

subsection \<open>Withdrawals\<close>

lemma sacar_historico:
  "historico (estado (poo_Conta_sacar a c)) = historico c"
  "historico (estado (dh_Conta_sacar a c)) = historico c"
  "historico (estado (poo_ContaCorrente_sacar a cc)) = historico cc"
  "historico (estado (dh_ContaCorrente_sacar a cc)) = historico cc"
  by (simp_all add: sacar_defs Let_def)

lemma sacar_falha_estado:
  "\<not> retornado (poo_Conta_sacar a c) \<Longrightarrow> estado (poo_Conta_sacar a c) = c"
  "\<not> retornado (dh_Conta_sacar a c) \<Longrightarrow> estado (dh_Conta_sacar a c) = c"
  "\<not> retornado (poo_ContaCorrente_sacar a cc) \<Longrightarrow> estado (poo_ContaCorrente_sacar a cc) = cc"
  "\<not> retornado (dh_ContaCorrente_sacar a cc) \<Longrightarrow> estado (dh_ContaCorrente_sacar a cc) = cc"
  by (simp_all add: sacar_defs Let_def split: if_splits)

lemma sacar_nao_positivo:
  "a \<le> 0 \<Longrightarrow> \<not> retornado (poo_Conta_sacar a c)"
  "a \<le> 0 \<Longrightarrow> \<not> retornado (dh_Conta_sacar a c)"
  "a \<le> 0 \<Longrightarrow> \<not> retornado (poo_ContaCorrente_sacar a cc)"
  "a \<le> 0 \<Longrightarrow> \<not> retornado (dh_ContaCorrente_sacar a cc)"
  by (simp_all add: sacar_defs Let_def)

lemma sacar_saldo_nonneg:
  "0 \<le> saldo c \<Longrightarrow> 0 \<le> saldo (estado (poo_Conta_sacar a c))"
  "0 \<le> saldo c \<Longrightarrow> 0 \<le> saldo (estado (dh_Conta_sacar a c))"
  "0 \<le> saldo cc \<Longrightarrow> 0 \<le> saldo (estado (poo_ContaCorrente_sacar a cc))"
  "0 \<le> saldo cc \<Longrightarrow> 0 \<le> saldo (estado (dh_ContaCorrente_sacar a cc))"
  by (simp_all add: sacar_defs Let_def)

text \<open>
  C1, as stated, fails on a checking account, the only kind of account either module
  creates: there \<open>conta.sacar\<close> is \<open>ContaCorrente.sacar\<close>, and with balance 1000 and the
  default limit of 500 an amount of 600, which is positive and within the balance, returns
  False and leaves the balance at 1000.
\<close>

theorem sacar_counterexample:
  "(0::int) < 600
   \<and> 600 \<le> saldo (estado (Conta_depositar 1000 (ContaCorrente_init 1 ''ana'' 500 3)))
   \<and> retornado (poo_ContaCorrente_sacar 600
        (estado (Conta_depositar 1000 (ContaCorrente_init 1 ''ana'' 500 3)))) = False
   \<and> retornado (dh_ContaCorrente_sacar 600
        (estado (Conta_depositar 1000 (ContaCorrente_init 1 ''ana'' 500 3)))) = False
   \<and> saldo (estado (poo_ContaCorrente_sacar 600
        (estado (Conta_depositar 1000 (ContaCorrente_init 1 ''ana'' 500 3))))) = 1000
   \<and> saldo (estado (dh_ContaCorrente_sacar 600
        (estado (Conta_depositar 1000 (ContaCorrente_init 1 ''ana'' 500 3))))) = 1000"
  by (simp add: avaliar)

text \<open>
  C1, amended. On an account with balance \<open>B\<close>, an amount \<open>a > B\<close> returns False and leaves
  the balance \<open>B\<close>, for \<open>Conta.sacar\<close> and for \<open>ContaCorrente.sacar\<close>. An amount \<open>a\<close> with
  \<open>0 < a \<le> B\<close> returns True and leaves the balance \<open>B - a\<close> for \<open>Conta.sacar\<close>; for
  \<open>ContaCorrente.sacar\<close> it does so when moreover \<open>a\<close> is within the per-withdrawal limit and
  the history holds fewer "Saque" entries than \<open>limite_saques\<close>.
\<close>

theorem sacar_por_classe:
  "(0 < a \<and> a \<le> saldo c \<longrightarrow>
      retornado (poo_Conta_sacar a c) = True \<and> saldo (estado (poo_Conta_sacar a c)) = saldo c - a
    \<and> retornado (dh_Conta_sacar a c) = True \<and> saldo (estado (dh_Conta_sacar a c)) = saldo c - a)
   \<and> (a > saldo c \<longrightarrow>
      retornado (poo_Conta_sacar a c) = False \<and> saldo (estado (poo_Conta_sacar a c)) = saldo c
    \<and> retornado (dh_Conta_sacar a c) = False \<and> saldo (estado (dh_Conta_sacar a c)) = saldo c)
   \<and> (0 < a \<and> a \<le> saldo cc \<and> a \<le> limite cc
        \<and> dh_numero_saques (historico cc) < limite_saques cc \<longrightarrow>
      retornado (poo_ContaCorrente_sacar a cc) = True
    \<and> saldo (estado (poo_ContaCorrente_sacar a cc)) = saldo cc - a
    \<and> retornado (dh_ContaCorrente_sacar a cc) = True
    \<and> saldo (estado (dh_ContaCorrente_sacar a cc)) = saldo cc - a)
   \<and> (a > saldo cc \<longrightarrow>
      retornado (poo_ContaCorrente_sacar a cc) = False
    \<and> saldo (estado (poo_ContaCorrente_sacar a cc)) = saldo cc
    \<and> retornado (dh_ContaCorrente_sacar a cc) = False
    \<and> saldo (estado (dh_ContaCorrente_sacar a cc)) = saldo cc)"
  by (simp add: sacar_defs Let_def numero_saques_eq)

theorem sacar_por_classe_witness:
  "retornado (poo_Conta_sacar 200 (estado (Conta_depositar 1000 (Conta_init 1 ''ana'')))) = True
   \<and> saldo (estado (dh_Conta_sacar 200 (estado (Conta_depositar 1000 (Conta_init 1 ''ana''))))) = 800
   \<and> retornado (dh_Conta_sacar 200 (Conta_init 1 ''ana'')) = False
   \<and> saldo (estado (poo_Conta_sacar 200 (Conta_init 1 ''ana''))) = 0
   \<and> retornado (dh_ContaCorrente_sacar 200
        (estado (Conta_depositar 1000 (ContaCorrente_init 1 ''ana'' 500 3)))) = True
   \<and> saldo (estado (poo_ContaCorrente_sacar 200
        (estado (Conta_depositar 1000 (ContaCorrente_init 1 ''ana'' 500 3))))) = 800
   \<and> retornado (poo_ContaCorrente_sacar 200 (ContaCorrente_init 1 ''ana'' 500 3)) = False
   \<and> saldo (estado (dh_ContaCorrente_sacar 200 (ContaCorrente_init 1 ''ana'' 500 3))) = 0"
proof -
  have d: "saldo (estado (Conta_depositar 1000 (Conta_init 1 ''ana''))) = 1000"
    by (simp add: Conta_depositar_def conta_nova_campos)
  have dc: "saldo (estado (Conta_depositar 1000 (ContaCorrente_init 1 ''ana'' 500 3))) = 1000"
    "limite (estado (Conta_depositar 1000 (ContaCorrente_init 1 ''ana'' 500 3))) = 500"
    "limite_saques (estado (Conta_depositar 1000 (ContaCorrente_init 1 ''ana'' 500 3))) = 3"
    "dh_numero_saques (historico (estado (Conta_depositar 1000 (ContaCorrente_init 1 ''ana'' 500 3)))) = 0"
    by (simp_all add: Conta_depositar_def conta_nova_campos)
  from sacar_por_classe [of 200 "estado (Conta_depositar 1000 (Conta_init 1 ''ana''))"
         "estado (Conta_depositar 1000 (ContaCorrente_init 1 ''ana'' 500 3))"]
       sacar_por_classe [of 200 "Conta_init 1 ''ana''" "ContaCorrente_init 1 ''ana'' 500 3"]
  show ?thesis
    by (simp add: d dc conta_nova_campos)
qed

text \<open>
  C4. \<open>ContaCorrente.sacar\<close> with an amount above the per-withdrawal limit returns False
  and leaves the account (so its balance) as it was, whatever the balance.
\<close>

theorem ContaCorrente_sacar_acima_limite:
  "a > limite cc \<Longrightarrow>
     retornado (poo_ContaCorrente_sacar a cc) = False \<and> estado (poo_ContaCorrente_sacar a cc) = cc
   \<and> saldo (estado (poo_ContaCorrente_sacar a cc)) = saldo cc
   \<and> retornado (dh_ContaCorrente_sacar a cc) = False \<and> estado (dh_ContaCorrente_sacar a cc) = cc
   \<and> saldo (estado (dh_ContaCorrente_sacar a cc)) = saldo cc"
  by (simp add: poo_ContaCorrente_sacar_def dh_ContaCorrente_sacar_def Let_def)

theorem ContaCorrente_sacar_acima_limite_witness:
  "600 > limite (estado (Conta_depositar 1000 (ContaCorrente_init 1 ''ana'' 500 3)))
   \<and> retornado (poo_ContaCorrente_sacar 600
        (estado (Conta_depositar 1000 (ContaCorrente_init 1 ''ana'' 500 3)))) = False
   \<and> saldo (estado (dh_ContaCorrente_sacar 600
        (estado (Conta_depositar 1000 (ContaCorrente_init 1 ''ana'' 500 3))))) = 1000"
proof -
  have h: "600 > limite (estado (Conta_depositar 1000 (ContaCorrente_init 1 ''ana'' 500 3)))"
    by (simp add: Conta_depositar_def ContaCorrente_init_def Conta_init_def conta.defs
        conta_corrente.defs)
  have s: "saldo (estado (Conta_depositar 1000 (ContaCorrente_init 1 ''ana'' 500 3))) = 1000"
    by (simp add: Conta_depositar_def ContaCorrente_init_def Conta_init_def conta.defs
        conta_corrente.defs)
  from ContaCorrente_sacar_acima_limite [OF h] h s show ?thesis by simp
qed

subsection \<open>The withdrawal count and the history\<close>

lemma numero_saques_adicionar:
  "dh_numero_saques (adicionar_transacao (Saque v) agora h) = dh_numero_saques h + 1"
  "dh_numero_saques (adicionar_transacao (Deposito v) agora h) = dh_numero_saques h"
  by (simp_all add: dh_numero_saques_def adicionar_transacao_def)

lemma numero_saques_periodo:
  "int (length (filter (\<lambda>t. tipo t = ''Saque'' \<and> no_periodo t) h)) \<le> dh_numero_saques h"
  unfolding dh_numero_saques_def by (induction h) simp_all

lemma Saque_registrar_historico:
  assumes "historico (estado (m a c)) = historico c"
  shows "historico (estado (Saque_registrar m a agora c)) =
         (if retornado (m a c) then adicionar_transacao (Saque a) agora (historico c)
          else historico c)"
  using assms by (simp add: Saque_registrar_def Let_def)

lemma Deposito_registrar_historico:
  "historico (estado (Deposito_registrar a agora c)) =
   (if retornado (Conta_depositar a c) then adicionar_transacao (Deposito a) agora (historico c)
    else historico c)"
  by (simp add: Deposito_registrar_def Conta_depositar_def Let_def)

text \<open>
  C3. A checking account whose history holds as many "Saque" entries as
  \<open>limite_saques\<close> (or more) refuses the next \<open>sacar\<close>: it returns False and the account, so
  its balance, is as before, whatever the amount. The code counts every "Saque" entry of the
  history, so the same holds when the entries of any one period (\<open>no_periodo\<close>, an arbitrary
  selection of entries) already reach \<open>limite_saques\<close>. The count reads the history and nothing
  else: \<open>sacar\<close> itself never writes the history, a \<open>Saque\<close> registered through
  \<open>registrar\<close> raises the count by one exactly when \<open>sacar\<close> returned True and leaves it
  alone when \<open>sacar\<close> returned False, and a \<open>Deposito\<close> never changes it.
\<close>

theorem ContaCorrente_sacar_limite_saques:
  "(limite_saques cc \<le> dh_numero_saques (historico cc) \<longrightarrow>
       retornado (poo_ContaCorrente_sacar a cc) = False \<and> estado (poo_ContaCorrente_sacar a cc) = cc
     \<and> saldo (estado (poo_ContaCorrente_sacar a cc)) = saldo cc
     \<and> retornado (dh_ContaCorrente_sacar a cc) = False \<and> estado (dh_ContaCorrente_sacar a cc) = cc
     \<and> saldo (estado (dh_ContaCorrente_sacar a cc)) = saldo cc)
   \<and> (limite_saques cc \<le>
        int (length (filter (\<lambda>t. tipo t = ''Saque'' \<and> no_periodo t) (historico cc))) \<longrightarrow>
       retornado (poo_ContaCorrente_sacar a cc) = False \<and> estado (poo_ContaCorrente_sacar a cc) = cc
     \<and> retornado (dh_ContaCorrente_sacar a cc) = False \<and> estado (dh_ContaCorrente_sacar a cc) = cc)
   \<and> poo_numero_saques (historico cc) = dh_numero_saques (historico cc)
   \<and> dh_numero_saques (historico cc) = int (length (filter (\<lambda>t. tipo t = ''Saque'') (historico cc)))
   \<and> historico (estado (poo_ContaCorrente_sacar a cc)) = historico cc
   \<and> historico (estado (dh_ContaCorrente_sacar a cc)) = historico cc
   \<and> dh_numero_saques (historico (estado (Saque_registrar poo_ContaCorrente_sacar a agora cc))) =
       (if retornado (poo_ContaCorrente_sacar a cc) then dh_numero_saques (historico cc) + 1
        else dh_numero_saques (historico cc))
   \<and> dh_numero_saques (historico (estado (Saque_registrar dh_ContaCorrente_sacar a agora cc))) =
       (if retornado (dh_ContaCorrente_sacar a cc) then dh_numero_saques (historico cc) + 1
        else dh_numero_saques (historico cc))
   \<and> dh_numero_saques (historico (estado (Deposito_registrar a agora cc))) =
       dh_numero_saques (historico cc)"
proof -
  have gate: "limite_saques cc \<le> dh_numero_saques (historico cc) \<longrightarrow>
       retornado (poo_ContaCorrente_sacar a cc) = False \<and> estado (poo_ContaCorrente_sacar a cc) = cc
     \<and> saldo (estado (poo_ContaCorrente_sacar a cc)) = saldo cc
     \<and> retornado (dh_ContaCorrente_sacar a cc) = False \<and> estado (dh_ContaCorrente_sacar a cc) = cc
     \<and> saldo (estado (dh_ContaCorrente_sacar a cc)) = saldo cc"
    by (simp add: poo_ContaCorrente_sacar_def dh_ContaCorrente_sacar_def Let_def numero_saques_eq)
  have per: "limite_saques cc \<le>
        int (length (filter (\<lambda>t. tipo t = ''Saque'' \<and> no_periodo t) (historico cc))) \<longrightarrow>
       retornado (poo_ContaCorrente_sacar a cc) = False \<and> estado (poo_ContaCorrente_sacar a cc) = cc
     \<and> retornado (dh_ContaCorrente_sacar a cc) = False \<and> estado (dh_ContaCorrente_sacar a cc) = cc"
  proof
    assume "limite_saques cc \<le>
        int (length (filter (\<lambda>t. tipo t = ''Saque'' \<and> no_periodo t) (historico cc)))"
    with numero_saques_periodo [of no_periodo "historico cc"]
    have "limite_saques cc \<le> dh_numero_saques (historico cc)" by linarith
    with gate show "retornado (poo_ContaCorrente_sacar a cc) = False
        \<and> estado (poo_ContaCorrente_sacar a cc) = cc
        \<and> retornado (dh_ContaCorrente_sacar a cc) = False
        \<and> estado (dh_ContaCorrente_sacar a cc) = cc"
      by simp
  qed
  have cnt: "dh_numero_saques (historico cc) =
      int (length (filter (\<lambda>t. tipo t = ''Saque'') (historico cc)))"
    by (simp add: dh_numero_saques_def)
  have r1: "dh_numero_saques (historico (estado (Saque_registrar poo_ContaCorrente_sacar a agora cc))) =
       (if retornado (poo_ContaCorrente_sacar a cc) then dh_numero_saques (historico cc) + 1
        else dh_numero_saques (historico cc))"
    by (simp add: Saque_registrar_historico sacar_historico numero_saques_adicionar)
  have r2: "dh_numero_saques (historico (estado (Saque_registrar dh_ContaCorrente_sacar a agora cc))) =
       (if retornado (dh_ContaCorrente_sacar a cc) then dh_numero_saques (historico cc) + 1
        else dh_numero_saques (historico cc))"
    by (simp add: Saque_registrar_historico sacar_historico numero_saques_adicionar)
  have r3: "dh_numero_saques (historico (estado (Deposito_registrar a agora cc))) =
       dh_numero_saques (historico cc)"
    by (simp add: Deposito_registrar_historico numero_saques_adicionar)
  from gate per cnt r1 r2 r3 show ?thesis
    by (simp only: numero_saques_eq sacar_historico simp_thms)
qed

theorem ContaCorrente_sacar_limite_saques_witness:
  "limite_saques conta_tres_saques \<le> dh_numero_saques (historico conta_tres_saques)
   \<and> limite_saques conta_tres_saques \<le>
       int (length (filter (\<lambda>t. tipo t = ''Saque'' \<and> data t \<noteq> ''t0'') (historico conta_tres_saques)))
   \<and> 100 \<le> saldo conta_tres_saques \<and> 100 \<le> limite conta_tres_saques
   \<and> retornado (poo_ContaCorrente_sacar 100 conta_tres_saques) = False
   \<and> retornado (dh_ContaCorrente_sacar 100 conta_tres_saques) = False
   \<and> saldo (estado (dh_ContaCorrente_sacar 100 conta_tres_saques)) = 700
   \<and> dh_numero_saques (historico (estado
        (Saque_registrar dh_ContaCorrente_sacar 100 ''t4'' conta_tres_saques))) = 3"
proof -
  have per: "limite_saques conta_tres_saques \<le>
       int (length (filter (\<lambda>t. tipo t = ''Saque'' \<and> data t \<noteq> ''t0'') (historico conta_tres_saques)))"
    by (simp add: conta_tres_saques_eq)
  from per ContaCorrente_sacar_limite_saques
      [where cc = conta_tres_saques and a = 100 and agora = "''t4''"
         and no_periodo = "\<lambda>t. data t \<noteq> ''t0''"]
  show ?thesis
    by (simp add: conta_tres_saques_campos)
qed

text \<open>
  C8. A transaction applied through \<open>registrar\<close> appends exactly one entry (its class
  name, its amount, the clock reading) to the history when the \<open>sacar\<close> or \<open>depositar\<close>
  it calls returns True, and leaves the history as it was when the call returns False; for
  \<open>Conta\<close> and \<open>ContaCorrente\<close>, in both modules.
\<close>

theorem registrar_historico:
  "historico (estado (Saque_registrar poo_Conta_sacar a agora c)) =
     (if retornado (poo_Conta_sacar a c)
      then historico c @ [\<lparr>tipo = ''Saque'', valor = a, data = agora\<rparr>] else historico c)
   \<and> historico (estado (Saque_registrar dh_Conta_sacar a agora c)) =
     (if retornado (dh_Conta_sacar a c)
      then historico c @ [\<lparr>tipo = ''Saque'', valor = a, data = agora\<rparr>] else historico c)
   \<and> historico (estado (Saque_registrar poo_ContaCorrente_sacar a agora cc)) =
     (if retornado (poo_ContaCorrente_sacar a cc)
      then historico cc @ [\<lparr>tipo = ''Saque'', valor = a, data = agora\<rparr>] else historico cc)
   \<and> historico (estado (Saque_registrar dh_ContaCorrente_sacar a agora cc)) =
     (if retornado (dh_ContaCorrente_sacar a cc)
      then historico cc @ [\<lparr>tipo = ''Saque'', valor = a, data = agora\<rparr>] else historico cc)
   \<and> historico (estado (Deposito_registrar a agora c)) =
     (if retornado (Conta_depositar a c)
      then historico c @ [\<lparr>tipo = ''Deposito'', valor = a, data = agora\<rparr>] else historico c)
   \<and> length (historico (estado (Saque_registrar poo_Conta_sacar a agora c))) =
     (if retornado (poo_Conta_sacar a c) then length (historico c) + 1 else length (historico c))
   \<and> length (historico (estado (Saque_registrar dh_Conta_sacar a agora c))) =
     (if retornado (dh_Conta_sacar a c) then length (historico c) + 1 else length (historico c))
   \<and> length (historico (estado (Saque_registrar poo_ContaCorrente_sacar a agora cc))) =
     (if retornado (poo_ContaCorrente_sacar a cc) then length (historico cc) + 1
      else length (historico cc))
   \<and> length (historico (estado (Saque_registrar dh_ContaCorrente_sacar a agora cc))) =
     (if retornado (dh_ContaCorrente_sacar a cc) then length (historico cc) + 1
      else length (historico cc))
   \<and> length (historico (estado (Deposito_registrar a agora c))) =
     (if retornado (Conta_depositar a c) then length (historico c) + 1 else length (historico c))"
  by (simp add: Saque_registrar_historico Deposito_registrar_historico sacar_historico
      adicionar_transacao_def)

theorem registrar_historico_witness:
  "length (historico (estado (Saque_registrar dh_ContaCorrente_sacar 100 ''t4'' conta_tres_saques))) = 4
   \<and> length (historico (estado (Deposito_registrar 100 ''t4'' conta_tres_saques))) = 5
   \<and> length (historico (estado (Deposito_registrar 0 ''t4'' conta_tres_saques))) = 4
   \<and> length (historico (estado (Saque_registrar poo_Conta_sacar 100 ''t1''
        (estado (Deposito_registrar 1000 ''t0'' (Conta_init 1 ''ana'')))))) = 2
   \<and> length (historico (estado (Saque_registrar dh_Conta_sacar 100 ''t1'' (Conta_init 1 ''ana'')))) = 0"
  using registrar_historico [of 100 "''t4''" "Conta_init 1 ''ana''" conta_tres_saques]
        registrar_historico [of 0 "''t4''" conta_tres_saques conta_tres_saques]
        registrar_historico [of 100 "''t1''" "estado (Deposito_registrar 1000 ''t0'' (Conta_init 1 ''ana''))"
          conta_tres_saques]
        registrar_historico [of 100 "''t1''" "Conta_init 1 ''ana''" conta_tres_saques]
  by (simp add: conta_tres_saques_eq avaliar)

subsection \<open>Deposit followed by withdrawal\<close>

text \<open>
  C9, as stated, fails on a checking account: on a new account with the default limit of
  500, \<open>depositar(600)\<close> followed by \<open>sacar(600)\<close> leaves the balance at 600, not at 0,
  because the withdrawal is above the limit.
\<close>

theorem deposito_saque_counterexample:
  "(600::int) > 0 \<and> 600 \<le> saldo (ContaCorrente_init 1 ''ana'' 500 3) + 600
   \<and> saldo (estado (poo_ContaCorrente_sacar 600
        (estado (Conta_depositar 600 (ContaCorrente_init 1 ''ana'' 500 3)))))
      \<noteq> saldo (ContaCorrente_init 1 ''ana'' 500 3)
   \<and> saldo (estado (dh_ContaCorrente_sacar 600
        (estado (Conta_depositar 600 (ContaCorrente_init 1 ''ana'' 500 3)))))
      \<noteq> saldo (ContaCorrente_init 1 ''ana'' 500 3)"
  by (simp add: avaliar)

text \<open>
  C9, amended. For an integer balance \<open>B\<close> and an integer amount \<open>a > 0\<close> with \<open>a \<le> B + a\<close>,
  \<open>depositar(a)\<close> followed by \<open>Conta.sacar(a)\<close> restores the balance \<open>B\<close>; followed by
  \<open>ContaCorrente.sacar(a)\<close> it restores \<open>B\<close> when moreover \<open>a\<close> is within the per-withdrawal
  limit and the history holds fewer "Saque" entries than \<open>limite_saques\<close>. The statement is
  about integers: with the floating-point amounts of the second module's menu, \<open>+=\<close> and
  \<open>-=\<close> round, and \<open>(B + a) - a\<close> need not be \<open>B\<close>.
\<close>

theorem deposito_saque_restaura:
  "a > 0 \<Longrightarrow> a \<le> saldo c + a \<Longrightarrow>
     saldo (estado (poo_Conta_sacar a (estado (Conta_depositar a c)))) = saldo c
   \<and> saldo (estado (dh_Conta_sacar a (estado (Conta_depositar a c)))) = saldo c
   \<and> (a \<le> limite cc \<and> dh_numero_saques (historico cc) < limite_saques cc \<and> a \<le> saldo cc + a \<longrightarrow>
        saldo (estado (poo_ContaCorrente_sacar a (estado (Conta_depositar a cc)))) = saldo cc
      \<and> saldo (estado (dh_ContaCorrente_sacar a (estado (Conta_depositar a cc)))) = saldo cc)"
  by (simp add: Conta_depositar_def sacar_defs Let_def numero_saques_eq)

theorem deposito_saque_restaura_witness:
  "(300::int) > 0 \<and> 300 \<le> saldo (Conta_init 1 ''ana'') + 300
   \<and> 300 \<le> limite (ContaCorrente_init 1 ''ana'' 500 3)
   \<and> dh_numero_saques (historico (ContaCorrente_init 1 ''ana'' 500 3))
       < limite_saques (ContaCorrente_init 1 ''ana'' 500 3)
   \<and> saldo (estado (dh_Conta_sacar 300 (estado (Conta_depositar 300 (Conta_init 1 ''ana''))))) = 0
   \<and> saldo (estado (poo_ContaCorrente_sacar 300
        (estado (Conta_depositar 300 (ContaCorrente_init 1 ''ana'' 500 3))))) = 0"
  using deposito_saque_restaura [of 300 "Conta_init 1 ''ana''" "ContaCorrente_init 1 ''ana'' 500 3"]
  by (simp add: conta_nova_campos)

subsection \<open>The balance is never negative\<close>

lemma depositar_saldo_nonneg: "0 \<le> saldo c \<Longrightarrow> 0 \<le> saldo (estado (Conta_depositar a c))"
  by (simp add: Conta_depositar_def)

lemma registrar_saldo:
  "saldo (estado (Saque_registrar m a agora c)) = saldo (estado (m a c))"
  "saldo (estado (Deposito_registrar a agora c)) = saldo (estado (Conta_depositar a c))"
  by (simp_all add: Saque_registrar_def Deposito_registrar_def Let_def)

lemma chamar_saldo_nonneg:
  assumes m: "\<And>v c. 0 \<le> saldo c \<Longrightarrow> 0 \<le> saldo (estado (m v c))"
    and c: "0 \<le> saldo c"
  shows "0 \<le> saldo (chamar m x c)"
proof (cases x)
  case (Depositar v)
  then show ?thesis using c by (simp add: depositar_saldo_nonneg)
next
  case (Sacar v)
  then show ?thesis using m [OF c] by simp
next
  case (Realizar t agora)
  then show ?thesis using m [OF c] c
    by (cases t) (simp_all add: registrar_saldo depositar_saldo_nonneg)
qed

lemma executar_saldo_nonneg:
  assumes m: "\<And>v c. 0 \<le> saldo c \<Longrightarrow> 0 \<le> saldo (estado (m v c))"
  shows "0 \<le> saldo c \<Longrightarrow> 0 \<le> saldo (executar m xs c)"
proof (induction xs arbitrary: c)
  case Nil
  then show ?case by simp
next
  case (Cons x xs)
  have "0 \<le> saldo (chamar m x c)"
    using m Cons.prems by (rule chamar_saldo_nonneg)
  then show ?case by (simp add: Cons.IH)
qed

text \<open>
  C5. After any sequence of \<open>depositar\<close>, \<open>sacar\<close> and \<open>realizar_transacao\<close> calls on a freshly
  created account (\<open>Conta\<close> or \<open>ContaCorrente\<close>, either module) the balance is not negative;
  every prefix of a sequence is a sequence, so this holds at every point of a run. The
  operations that are neither \<open>depositar\<close> nor \<open>sacar\<close> do not change the balance by
  themselves: writing a history entry keeps it, and after \<open>registrar\<close> the balance is the one
  the \<open>sacar\<close> or \<open>depositar\<close> call inside it produced.
\<close>

theorem saldo_nunca_negativo:
  "0 \<le> saldo (executar poo_Conta_sacar xs (Conta_init n cl))
   \<and> 0 \<le> saldo (executar dh_Conta_sacar xs (Conta_init n cl))
   \<and> 0 \<le> saldo (executar poo_ContaCorrente_sacar xs (ContaCorrente_init n cl l ls))
   \<and> 0 \<le> saldo (executar dh_ContaCorrente_sacar xs (ContaCorrente_init n cl l ls))
   \<and> saldo (c\<lparr>historico := adicionar_transacao t agora (historico c)\<rparr>) = saldo c
   \<and> saldo (estado (Saque_registrar m a agora c)) = saldo (estado (m a c))
   \<and> saldo (estado (Deposito_registrar a agora c)) = saldo (estado (Conta_depositar a c))"
proof -
  have "0 \<le> saldo (executar poo_Conta_sacar xs (Conta_init n cl))"
    by (rule executar_saldo_nonneg) (simp_all add: sacar_saldo_nonneg conta_nova_campos)
  moreover have "0 \<le> saldo (executar dh_Conta_sacar xs (Conta_init n cl))"
    by (rule executar_saldo_nonneg) (simp_all add: sacar_saldo_nonneg conta_nova_campos)
  moreover have "0 \<le> saldo (executar poo_ContaCorrente_sacar xs (ContaCorrente_init n cl l ls))"
    by (rule executar_saldo_nonneg) (simp_all add: sacar_saldo_nonneg conta_nova_campos)
  moreover have "0 \<le> saldo (executar dh_ContaCorrente_sacar xs (ContaCorrente_init n cl l ls))"
    by (rule executar_saldo_nonneg) (simp_all add: sacar_saldo_nonneg conta_nova_campos)
  ultimately show ?thesis by (simp add: registrar_saldo)
qed

subsection \<open>Which failure is reported\<close>

text \<open>
  C6, as stated, fails on \<open>ContaCorrente.sacar\<close> in both modules: the count of withdrawals
  is checked before \<open>super().sacar\<close> looks at the amount. With the count exhausted, an
  amount of -5 (within the limit of 500) is refused with the count line, not with the
  invalid-amount line.
\<close>

theorem ordem_validacao_counterexample:
  "(-5::int) \<le> 0
   \<and> -5 \<le> limite conta_tres_saques
   \<and> limite_saques conta_tres_saques \<le> dh_numero_saques (historico conta_tres_saques)
   \<and> impresso (poo_ContaCorrente_sacar (-5) conta_tres_saques) = SaquesExcedidos
   \<and> impresso (dh_ContaCorrente_sacar (-5) conta_tres_saques) = SaquesExcedidos
   \<and> impresso (poo_ContaCorrente_sacar (-5) conta_tres_saques) \<noteq> ValorInvalido
   \<and> impresso (dh_ContaCorrente_sacar (-5) conta_tres_saques) \<noteq> ValorInvalido"
  by (simp add: conta_tres_saques_eq avaliar)

text \<open>
  C6, amended. On a checking account the withdrawal count is checked before the account's
  own checks of the amount and the balance, and the per-withdrawal limit before the count
  and before the check of the amount: an amount within the limit is refused with the count
  line once the count is exhausted, also when it is not positive or exceeds the balance, and
  an amount above the limit and within the balance is refused with the limit line. When
  neither policy refuses, the line is the one of \<open>Conta.sacar\<close>, which reports an invalid
  amount for \<open>a \<le> 0\<close> and insufficient funds for \<open>a > B\<close>; on a balance that is not negative
  the two never apply together. Nothing is said here of an amount above both the limit and
  the balance.
\<close>

theorem ordem_validacao:
  "(a > limite cc \<and> a \<le> saldo cc \<longrightarrow>
       impresso (poo_ContaCorrente_sacar a cc) = LimiteExcedido
     \<and> impresso (dh_ContaCorrente_sacar a cc) = LimiteExcedido)
   \<and> (a \<le> limite cc \<and> limite_saques cc \<le> dh_numero_saques (historico cc) \<longrightarrow>
       impresso (poo_ContaCorrente_sacar a cc) = SaquesExcedidos
     \<and> impresso (dh_ContaCorrente_sacar a cc) = SaquesExcedidos)
   \<and> (a \<le> limite cc \<and> dh_numero_saques (historico cc) < limite_saques cc \<longrightarrow>
       impresso (poo_ContaCorrente_sacar a cc) = impresso (poo_Conta_sacar a cc)
     \<and> impresso (dh_ContaCorrente_sacar a cc) = impresso (dh_Conta_sacar a cc))
   \<and> (a \<le> 0 \<longrightarrow> impresso (poo_Conta_sacar a c) = ValorInvalido)
   \<and> (a \<le> 0 \<and> 0 \<le> saldo c \<longrightarrow> impresso (dh_Conta_sacar a c) = ValorInvalido)
   \<and> (0 < a \<and> a > saldo c \<longrightarrow>
       impresso (poo_Conta_sacar a c) = SaldoInsuficiente
     \<and> impresso (dh_Conta_sacar a c) = SaldoInsuficiente)"
  by (simp add: sacar_defs Let_def numero_saques_eq)

theorem ordem_validacao_witness:
  "600 > limite conta_tres_saques \<and> 600 \<le> saldo conta_tres_saques
   \<and> impresso (dh_ContaCorrente_sacar 600 conta_tres_saques) = LimiteExcedido
   \<and> impresso (poo_ContaCorrente_sacar (-5) conta_tres_saques) = SaquesExcedidos
   \<and> impresso (dh_ContaCorrente_sacar 100 (ContaCorrente_init 1 ''ana'' 500 3)) =
       impresso (dh_Conta_sacar 100 (ContaCorrente_init 1 ''ana'' 500 3))
   \<and> impresso (poo_Conta_sacar (-5) (Conta_init 1 ''ana'')) = ValorInvalido
   \<and> 0 \<le> saldo (Conta_init 1 ''ana'')
   \<and> impresso (dh_Conta_sacar (-5) (Conta_init 1 ''ana'')) = ValorInvalido
   \<and> impresso (poo_Conta_sacar 100 (Conta_init 1 ''ana'')) = SaldoInsuficiente
   \<and> impresso (dh_Conta_sacar 100 (Conta_init 1 ''ana'')) = SaldoInsuficiente"
  using ordem_validacao [of conta_tres_saques 600 "Conta_init 1 ''ana''"]
        ordem_validacao [of conta_tres_saques "-5" "Conta_init 1 ''ana''"]
        ordem_validacao [of "ContaCorrente_init 1 ''ana'' 500 3" 100 "Conta_init 1 ''ana''"]
  by (simp add: conta_tres_saques_campos conta_nova_campos)

subsection \<open>Constructing a transaction\<close>

text \<open>
  C7, as stated, fails: \<open>Saque(-5)\<close> and \<open>Deposito(0)\<close> are constructed; neither
  \<open>__init__\<close> looks at the amount.
\<close>

theorem transacao_init_counterexample:
  "(-5::int) \<le> 0 \<and> (0::int) \<le> 0
   \<and> Saque_init (-5) = Some (Saque (-5)) \<and> Saque_init (-5) \<noteq> None
   \<and> Deposito_init 0 = Some (Deposito 0) \<and> Deposito_init 0 \<noteq> None"
  by (simp add: Saque_init_def Deposito_init_def)

text \<open>
  C7, amended. \<open>Saque(a)\<close> and \<open>Deposito(a)\<close> are constructed for every amount \<open>a\<close>, also
  \<open>a \<le> 0\<close>, and carry \<open>a\<close> as their \<open>valor\<close>. A non-positive amount is refused by the
  account only: registering such a transaction leaves the account, its balance and its
  history as they were.
\<close>

theorem transacao_init_aceita:
  "Saque_init a = Some (Saque a) \<and> Deposito_init a = Some (Deposito a)
   \<and> Transacao_valor (Saque a) = a \<and> Transacao_valor (Deposito a) = a
   \<and> (a \<le> 0 \<longrightarrow>
        estado (realizar_transacao poo_Conta_sacar (Saque a) agora c) = c
      \<and> estado (realizar_transacao dh_Conta_sacar (Saque a) agora c) = c
      \<and> estado (realizar_transacao poo_ContaCorrente_sacar (Saque a) agora cc) = cc
      \<and> estado (realizar_transacao dh_ContaCorrente_sacar (Saque a) agora cc) = cc
      \<and> estado (realizar_transacao m (Deposito a) agora c) = c)"
  by (simp add: Saque_init_def Deposito_init_def Saque_registrar_def Deposito_registrar_def
      Conta_depositar_def Let_def sacar_nao_positivo sacar_falha_estado)

theorem transacao_init_aceita_witness:
  "Saque_init (-5) = Some (Saque (-5))
   \<and> estado (realizar_transacao dh_ContaCorrente_sacar (Saque (-5)) ''t4'' conta_tres_saques)
      = conta_tres_saques
   \<and> estado (realizar_transacao dh_ContaCorrente_sacar (Deposito (-5)) ''t4'' conta_tres_saques)
      = conta_tres_saques
   \<and> estado (realizar_transacao poo_Conta_sacar (Saque (-5)) ''t4'' (Conta_init 1 ''ana''))
      = Conta_init 1 ''ana''"
  using transacao_init_aceita [of "-5" "''t4''" conta_tres_saques conta_tres_saques
          dh_ContaCorrente_sacar]
        transacao_init_aceita [of "-5" "''t4''" "Conta_init 1 ''ana''" conta_tres_saques
          poo_Conta_sacar]
  by simp

end
